theory Spec2Isabelle
  imports Main "HOL-Library.Word"
begin

section \<open>The Vienna Type List Library (VTLL.h) as functions on type tokens\<close>

text \<open>
  VTLL.h is a header of C++ template metaprograms: every algorithm is a class template
  whose partial specialisations pattern-match on a template-id \<open>Seq<Ts...>\<close> and whose
  member \<open>type\<close> or \<open>value\<close> is the result. The embedding reads a class template as a
  function on type tokens: one equation per partial specialisation, the argument pack
  \<open>Ts...\<close> as a list. An instantiation that the compiler rejects is the value \<open>Inl e\<close>.
\<close>

subsection \<open>Types, integers and compile failures\<close>

text \<open>\<open>std::size_t\<close>, 64 bits wide; unsigned arithmetic in a constant expression wraps.\<close>

type_synonym size_t = "64 word"

text \<open>
  The types the header computes with. \<open>Tmpl s ts\<close> is the specialisation \<open>s<ts...>\<close> of
  a class template \<open>s\<close> whose parameters are types (\<open>type_list\<close>, \<open>detail::type_list2\<close>,
  \<open>std::tuple\<close>, ...): what \<open>template <typename...> typename Seq, typename... Ts\<close>
  matches. \<open>VTmpl s is\<close> is the specialisation \<open>s<is...>\<close> of a class template over
  \<open>size_t\<close> values (\<open>value_list\<close>): what \<open>template <size_t...> typename Seq, size_t... Is\<close>
  matches. \<open>IntegralConstant i\<close> is \<open>std::integral_constant<std::size_t, i>\<close>, which
  neither pattern matches. The remaining constructors are the compound types that
  \<open>std::decay\<close> tells apart; a cv-qualified type is written with \<open>Const\<close> outside
  \<open>Volatile\<close>, and the qualifiers of an array are those of its element type.
\<close>

datatype ty =
    Named string
  | Const ty
  | Volatile ty
  | LRef ty
  | RRef ty
  | Ptr ty
  | Arr ty nat
  | Fn ty "ty list"
  | Tmpl string "ty list"
  | VTmpl string "size_t list"
  | IntegralConstant size_t

text \<open>The reasons for which an instantiation does not compile.\<close>

datatype error =
    IncompleteType            \<comment> \<open>no partial specialisation matches; the primary template is only declared\<close>
  | AmbiguousSpecialization   \<comment> \<open>two partial specialisations match and neither is more specialised\<close>
  | PackLengthMismatch        \<comment> \<open>one pack expansion over two packs of different lengths\<close>
  | NoValueMember             \<comment> \<open>\<open>T::value\<close> on a type without that member\<close>
  | NegativeLength            \<comment> \<open>\<open>std::make_integer_sequence\<close> with a negative length\<close>
  | NotRepresentable          \<comment> \<open>a template argument whose value does not fit its integer type\<close>

type_synonym 'a result = "error + 'a"

text \<open>A template argument that itself has to be instantiated first: failure propagates.\<close>

fun and_then :: "'a result \<Rightarrow> ('a \<Rightarrow> 'b result) \<Rightarrow> 'b result" where
  "and_then (Inl e) f = Inl e"
| "and_then (Inr x) f = f x"

text \<open>A pack expansion \<open>Fun<Ts>...\<close>: every element is instantiated.\<close>

fun expand :: "('a \<Rightarrow> 'b result) \<Rightarrow> 'a list \<Rightarrow> 'b list result" where
  "expand f [] = Inr []"
| "expand f (x # xs) = and_then (f x) (\<lambda>y. and_then (expand f xs) (\<lambda>ys. Inr (y # ys)))"

text \<open>
  \<open>T::value\<close> where a \<open>size_t\<close> is expected. For \<open>std::integral_constant<std::size_t, i>\<close>
  it is \<open>i\<close>. Other class types may have a static member \<open>value\<close> as well (this header's
  \<open>has_type<...>\<close> and \<open>is_same<...>\<close>, \<open>std::true_type\<close>, classes of the including
  program); which of them do is a matter of the class definitions in scope, so it is the
  parameter \<open>cv\<close>: \<open>cv T\<close> is that member converted to \<open>size_t\<close>, and \<open>None\<close> where \<open>T\<close> has
  no such member.
\<close>

fun value_of :: "(ty \<Rightarrow> size_t option) \<Rightarrow> ty \<Rightarrow> size_t result" where
  "value_of cv (IntegralConstant i) = Inr i"
| "value_of cv T = (case cv T of Some v \<Rightarrow> Inr v | None \<Rightarrow> Inl NoValueMember)"

text \<open>\<open>std::numeric_limits<size_t>::max()\<close>.\<close>

definition size_t_max :: size_t where
  "size_t_max = 18446744073709551615"

text \<open>The sequence shapes and some element types of the header's assertions.\<close>

definition type_list :: "ty list \<Rightarrow> ty" where
  "type_list ts = Tmpl ''type_list'' ts"

definition type_list2 :: "ty list \<Rightarrow> ty" where
  "type_list2 ts = Tmpl ''type_list2'' ts"

definition value_list :: "size_t list \<Rightarrow> ty" where
  "value_list is = VTmpl ''value_list'' is"

abbreviation "t_int \<equiv> Named ''int''"
abbreviation "t_char \<equiv> Named ''char''"
abbreviation "t_bool \<equiv> Named ''bool''"
abbreviation "t_float \<equiv> Named ''float''"
abbreviation "t_double \<equiv> Named ''double''"

subsection \<open>size, Nth_type, front, back\<close>

text \<open>\<open>size_impl<Seq<Ts...>>\<close>: \<open>sizeof...(Ts)\<close> as an integral constant.\<close>

fun size_impl :: "ty \<Rightarrow> ty result" where
  "size_impl (Tmpl s ts) = Inr (IntegralConstant (of_nat (length ts)))"
| "size_impl _ = Inl IncompleteType"

text \<open>
  The primary template \<open>template <typename Seq, size_t N> struct Nth_type_impl\<close> is
  declared and never defined. Its only partial specialisation is
  \<open>template <int N, template <typename...> typename Seq, typename... Ts>
  struct Nth_type_impl<Seq<Ts...>, N>\<close>: its parameter \<open>N\<close> is an \<open>int\<close> in the place of an
  argument of type \<open>size_t\<close>, so \<open>N\<close> cannot be deduced from any argument list and the
  specialisation never matches. \<open>Nth_type<Seq, N>\<close>, which is
  \<open>typename detail::Nth_type_impl<Seq, N>::type\<close>, therefore names a member of an
  incomplete type, whatever \<open>Seq\<close> and \<open>N\<close> are. (The member that the specialisation
  declares is \<open>std::tuple_element<N, std::tuple<Ts...>>::type\<close>.)
\<close>

definition Nth_type :: "ty \<Rightarrow> size_t \<Rightarrow> ty result" where
  "Nth_type Seq N = Inl IncompleteType"

definition front :: "ty \<Rightarrow> ty result" where
  "front seq = Nth_type seq 0"

text \<open>\<open>back\<close> (a command name here, hence \<open>back_type\<close>): \<open>Nth_type<Seq, size<Seq>::value - 1>\<close>; the
  subtraction is in \<open>size_t\<close>.\<close>

definition back_type :: "(ty \<Rightarrow> size_t option) \<Rightarrow> ty \<Rightarrow> ty result" where
  "back_type cv seq = and_then (and_then (size_impl seq) (value_of cv)) (\<lambda>n. Nth_type seq (n - 1))"

subsection \<open>index_of\<close>

text \<open>
  \<open>index_of_impl\<close> on the pack: the empty sequence gives the maximum of \<open>size_t\<close>, a
  sequence that starts with \<open>T\<close> gives 0, and any other sequence gives
  \<open>1 + index_of_impl<Seq<Ts...>,T>::value\<close>, computed in \<open>size_t\<close>.
\<close>

fun index_of_impl :: "ty list \<Rightarrow> ty \<Rightarrow> size_t" where
  "index_of_impl [] T = size_t_max"
| "index_of_impl (TOther # Ts) T = (if TOther = T then 0 else 1 + index_of_impl Ts T)"

fun index_of :: "ty \<Rightarrow> ty \<Rightarrow> ty result" where
  "index_of (Tmpl s ts) T = Inr (IntegralConstant (index_of_impl ts T))"
| "index_of _ T = Inl IncompleteType"

subsection \<open>cat\<close>

text \<open>
  \<open>cat_impl\<close> has three partial specialisations:
  (A) \<open><Seq1<>, Seq2<Ts...>>\<close>, (B) \<open><Seq1<Ts...>, Seq2<>>\<close> and
  (C) \<open><Seq1<Ts1...>, Seq2<T, Ts2...>>\<close>.
  The compiler takes the most specialised one that matches, and rejects the
  instantiation when there is none. With a non-empty first sequence only (B) or only
  (C) matches, according to the second sequence. With an empty first sequence (A)
  matches together with (B) (second sequence empty) or with (C) (second sequence
  non-empty), and (A) is ordered with neither: (A) and (B) are mirror images, and of
  (A) and (C) each matches arguments that the other does not (\<open><Seq1<>, Seq2<>>\<close>
  for (A), a non-empty \<open>Seq1\<close> for (C)). So every instantiation whose first sequence is
  empty is ambiguous. The header itself only ever instantiates \<open>cat\<close> with a non-empty
  first sequence.
\<close>

fun cat :: "ty \<Rightarrow> ty \<Rightarrow> ty result" where
  "cat (Tmpl s1 []) (Tmpl s2 ts2) = Inl AmbiguousSpecialization"
| "cat (Tmpl s1 ts1) (Tmpl s2 []) = Inr (Tmpl s1 ts1)"
| "cat (Tmpl s1 ts1) (Tmpl s2 (T # ts2)) = cat (Tmpl s1 (ts1 @ [T])) (Tmpl s2 ts2)"
| "cat _ _ = Inl IncompleteType"

subsection \<open>has_type and erase_type\<close>

text \<open>
  \<open>has_type_impl<Seq<Ts...>, T>\<close> is \<open>(std::is_same_v<T, Ts> || ...)\<close>, and the fold over
  an empty pack is \<open>false\<close>; the specialisation for \<open>Seq<>\<close>, more specialised, says
  \<open>false\<close> too.
\<close>

fun has_type :: "ty \<Rightarrow> ty \<Rightarrow> bool result" where
  "has_type (Tmpl s ts) T = Inr (list_ex (\<lambda>x. T = x) ts)"
| "has_type _ T = Inl IncompleteType"

text \<open>
  \<open>erase_type_impl<Seq<T, Ts...>, C>\<close> names \<open>type1\<close> (the head kept) and \<open>type2\<close> (the
  head dropped) and selects one with \<open>std::conditional\<close>; both are instantiated.
\<close>

fun erase_type_impl :: "string \<Rightarrow> ty list \<Rightarrow> ty \<Rightarrow> ty result" where
  "erase_type_impl s [] C = Inr (Tmpl s [])"
| "erase_type_impl s (T # Ts) C =
     and_then (erase_type_impl s Ts C) (\<lambda>type2.
     and_then (cat (Tmpl s [T]) type2) (\<lambda>type1.
     Inr (if T \<noteq> C then type1 else type2)))"

fun erase_type :: "ty \<Rightarrow> ty \<Rightarrow> ty result" where
  "erase_type (Tmpl s ts) C = erase_type_impl s ts C"
| "erase_type _ C = Inl IncompleteType"

subsection \<open>is_same\<close>

text \<open>
  \<open>std::decay\<close>, as the standard defines it: the reference is removed; an array type
  becomes the pointer to its element type, a function type the pointer to itself, and
  any other type loses its top-level cv-qualifiers.
\<close>

fun remove_reference :: "ty \<Rightarrow> ty" where
  "remove_reference (LRef T) = T"
| "remove_reference (RRef T) = T"
| "remove_reference T = T"

fun remove_cv :: "ty \<Rightarrow> ty" where
  "remove_cv (Const T) = remove_cv T"
| "remove_cv (Volatile T) = remove_cv T"
| "remove_cv T = T"

definition decay :: "ty \<Rightarrow> ty" where
  "decay T = (case remove_reference T of
                Arr U n \<Rightarrow> Ptr U
              | Fn R As \<Rightarrow> Ptr (Fn R As)
              | U \<Rightarrow> remove_cv U)"

text \<open>
  The primary template of \<open>is_same_impl\<close> has \<open>value = false\<close>. The partial
  specialisation for \<open>Seq<Ts...>\<close> has
  \<open>sizeof...(Ts) == sizeof...(Args) && (std::is_same_v<std::decay_t<Ts>, std::decay_t<Args>> && ... && true)\<close>.
  The fold expands \<open>Ts\<close> and \<open>Args\<close> in one pattern, and a pack expansion over packs
  of different lengths is ill-formed, whatever stands to the left of it.
\<close>

fun is_same :: "ty \<Rightarrow> ty list \<Rightarrow> bool result" where
  "is_same (Tmpl s Ts) Args =
     (if length Ts \<noteq> length Args then Inl PackLengthMismatch
      else Inr ((of_nat (length Ts) :: size_t) = of_nat (length Args)
                \<and> foldr (\<lambda>(T, A) b. decay T = decay A \<and> b) (zip Ts Args) True))"
| "is_same _ Args = Inr False"

subsection \<open>has_all_types and filter_have_all_types\<close>

text \<open>\<open>(has_type<Seq1<Ts1...>, Ts2>::value && ...)\<close>; the fold over an empty pack is \<open>true\<close>.\<close>

fun has_all_types :: "ty \<Rightarrow> ty \<Rightarrow> bool result" where
  "has_all_types (Tmpl s1 ts1) (Tmpl s2 ts2) =
     and_then (expand (has_type (Tmpl s1 ts1)) ts2) (\<lambda>bs. Inr (list_all (\<lambda>b. b) bs))"
| "has_all_types _ _ = Inl IncompleteType"

text \<open>
  \<open>filter_have_all_types_impl<Seq1<T, Ts...>, Seq2<Cs...>>\<close>: \<open>type1\<close> keeps the head,
  \<open>type2\<close> drops it, \<open>has_all_types<T, Seq2<Cs...>>::value\<close> selects.
\<close>

fun filter_have_all_types_impl :: "string \<Rightarrow> ty list \<Rightarrow> ty \<Rightarrow> ty result" where
  "filter_have_all_types_impl s1 [] Cs = Inr (Tmpl s1 [])"
| "filter_have_all_types_impl s1 (T # Ts) Cs =
     and_then (filter_have_all_types_impl s1 Ts Cs) (\<lambda>type2.
     and_then (cat (Tmpl s1 [T]) type2) (\<lambda>type1.
     and_then (has_all_types T Cs) (\<lambda>b.
     Inr (if b then type1 else type2))))"

fun filter_have_all_types :: "ty \<Rightarrow> ty \<Rightarrow> ty result" where
  "filter_have_all_types (Tmpl s1 ts) (Tmpl s2 cs) = filter_have_all_types_impl s1 ts (Tmpl s2 cs)"
| "filter_have_all_types _ _ = Inl IncompleteType"

text \<open>A sequence-of-sequences is a sequence whose elements are type sequences.\<close>

fun is_type_sequence :: "ty \<Rightarrow> bool" where
  "is_type_sequence (Tmpl s ts) = True"
| "is_type_sequence _ = False"

subsection \<open>transform and map\<close>

text \<open>\<open>transform_impl<Seq<Ts...>, Fun>\<close> is \<open>Seq<Fun<Ts>...>\<close>.\<close>

fun transform :: "ty \<Rightarrow> (ty \<Rightarrow> ty result) \<Rightarrow> ty result" where
  "transform (Tmpl s ts) Fun = and_then (expand Fun ts) (\<lambda>us. Inr (Tmpl s us))"
| "transform _ Fun = Inl IncompleteType"

text \<open>
  \<open>map_impl<Map, Key, Default>\<close>. Both alternatives handed to \<open>std::conditional\<close> are
  template arguments, so \<open>back<Nth_type<Map, index_of<Keys, Key>::value>>\<close> is
  instantiated whether or not the key is present.
\<close>

definition map_impl :: "(ty \<Rightarrow> size_t option) \<Rightarrow> ty \<Rightarrow> ty \<Rightarrow> ty \<Rightarrow> ty result" where
  "map_impl cv Map Key Default =
     and_then (transform Map front) (\<lambda>Keys.
     and_then (has_type Keys Key) (\<lambda>has.
     and_then (and_then (index_of Keys Key) (value_of cv)) (\<lambda>i.
     and_then (and_then (Nth_type Map i) (back_type cv)) (\<lambda>val.
     Inr (if has then val else Default)))))"

text \<open>The map of the header's assertions.\<close>

definition test_map :: ty where
  "test_map = type_list [type_list [t_int, t_char], type_list [t_float, t_double],
                         type_list [t_double, t_float]]"

subsection \<open>type_to_value and value_to_type\<close>

text \<open>\<open>type_to_value_impl<Seq<Ts...>>\<close> is \<open>value_list<Ts::value...>\<close>.\<close>

fun type_to_value :: "(ty \<Rightarrow> size_t option) \<Rightarrow> ty \<Rightarrow> ty result" where
  "type_to_value cv (Tmpl s ts) = and_then (expand (value_of cv) ts) (\<lambda>is. Inr (value_list is))"
| "type_to_value cv _ = Inl IncompleteType"

text \<open>\<open>value_to_type_impl<Seq<Is...>>\<close> is \<open>type_list<std::integral_constant<size_t, Is>...>\<close>.\<close>

fun value_to_type :: "ty \<Rightarrow> ty result" where
  "value_to_type (VTmpl s is) = Inr (type_list (map IntegralConstant is))"
| "value_to_type _ = Inl IncompleteType"

subsection \<open>static_for\<close>

text \<open>
  The index type \<open>T\<close> of \<open>static_for<T, Begin, End>\<close>: a signed or an unsigned integer
  type of a given width in bits (\<open>Signed 8\<close> is \<open>signed char\<close>, \<open>Signed 32\<close> is \<open>int\<close>,
  \<open>Unsigned 64\<close> is \<open>size_t\<close>), and the values it holds. \<open>int\<close> is 32 bits wide.
\<close>

datatype int_type = Signed nat | Unsigned nat

definition int_bits :: nat where
  "int_bits = 32"

fun representable :: "int_type \<Rightarrow> int \<Rightarrow> bool" where
  "representable (Signed w) v = (- (2 ^ (w - 1)) \<le> v \<and> v < 2 ^ (w - 1))"
| "representable (Unsigned w) v = (0 \<le> v \<and> v < 2 ^ w)"

text \<open>
  A template argument of type \<open>T\<close> given by a sum or difference of two values of type
  \<open>T\<close>, such as \<open>End - Begin\<close> and \<open>Begin + Is\<close>; \<open>v\<close> is the sum or difference as an
  integer. An unsigned \<open>T\<close> that is not narrower than \<open>int\<close> computes modulo \<open>2 ^ w\<close>. A
  signed \<open>T\<close> that is not narrower than \<open>int\<close> computes in \<open>T\<close>, and an overflow is not a
  constant expression. A \<open>T\<close> narrower than \<open>int\<close> is promoted to \<open>int\<close>, and the result
  is converted back to \<open>T\<close>, which must not narrow. In the last two cases the argument
  is well-formed exactly when \<open>v\<close> is a value of \<open>T\<close>.
\<close>

fun template_argument :: "int_type \<Rightarrow> int \<Rightarrow> int result" where
  "template_argument (Unsigned w) v =
     (if int_bits \<le> w then Inr (v mod 2 ^ w)
      else if representable (Unsigned w) v then Inr v else Inl NotRepresentable)"
| "template_argument (Signed w) v =
     (if representable (Signed w) v then Inr v else Inl NotRepresentable)"

text \<open>
  \<open>std::make_integer_sequence<T, N>\<close>, with \<open>N\<close> of type \<open>T\<close>, is
  \<open>std::integer_sequence<T, 0, ..., N - 1>\<close> and is ill-formed for negative \<open>N\<close>.
\<close>

definition make_integer_sequence :: "int_type \<Rightarrow> int \<Rightarrow> int list result" where
  "make_integer_sequence T N =
     (if representable T N
      then (if N < 0 then Inl NegativeLength else Inr (map int [0..<nat N]))
      else Inl NotRepresentable)"

text \<open>
  \<open>static_for<T, Begin, End>(f)\<close> calls \<open>f\<close> for its effect: the action is a function
  from the index to a transformer of the program state \<open>'s\<close>. \<open>static_for_impl\<close> is the
  fold \<open>(f(std::integral_constant<T, Begin + Is>{ }), ...)\<close> over the comma operator: all
  the types \<open>std::integral_constant<T, Begin + Is>\<close> are instantiated, and the calls run
  from left to right. \<open>static_for\<close> takes \<open>Begin\<close> and \<open>End\<close> as template arguments of
  type \<open>T\<close> and passes \<open>std::make_integer_sequence<T, End - Begin>\<close>.
\<close>

definition static_for_impl ::
  "int_type \<Rightarrow> int \<Rightarrow> (int \<Rightarrow> 's \<Rightarrow> 's) \<Rightarrow> int list \<Rightarrow> 's \<Rightarrow> 's result" where
  "static_for_impl T Begin f Is st =
     and_then (expand (\<lambda>I. template_argument T (Begin + I)) Is) (\<lambda>idx. Inr (fold f idx st))"

definition static_for ::
  "int_type \<Rightarrow> int \<Rightarrow> int \<Rightarrow> (int \<Rightarrow> 's \<Rightarrow> 's) \<Rightarrow> 's \<Rightarrow> 's result" where
  "static_for T Begin End f st =
     (if representable T Begin \<and> representable T End
      then and_then (template_argument T (End - Begin)) (\<lambda>N.
           and_then (make_integer_sequence T N) (\<lambda>Is.
           static_for_impl T Begin f Is st))
      else Inl NotRepresentable)"

section \<open>Properties\<close>

subsection \<open>Pack expansions and indices\<close>

lemma expand_total:
  "(\<And>x. x \<in> set xs \<Longrightarrow> f x = Inr (g x)) \<Longrightarrow> expand f xs = Inr (map g xs)"
  by (induction xs) simp_all

lemma and_then_Inr: "and_then m f = Inr y \<longleftrightarrow> (\<exists>x. m = Inr x \<and> f x = Inr y)"
  by (cases m) simp_all

subsection \<open>index_of\<close>

text \<open>
  Where \<open>T\<close> occurs, \<open>index_of\<close> is the position of its first occurrence.
\<close>

lemma index_of_impl_first:
  "i < length ts \<Longrightarrow> ts ! i = T \<Longrightarrow> (\<And>j. j < i \<Longrightarrow> ts ! j \<noteq> T) \<Longrightarrow> index_of_impl ts T = of_nat i"
proof (induction ts arbitrary: i)
  case Nil
  then show ?case by simp
next
  case (Cons a ts)
  show ?case
  proof (cases i)
    case 0
    with Cons.prems show ?thesis by simp
  next
    case (Suc k)
    with Cons.prems(3) [of 0] have ne: "a \<noteq> T" by simp
    have "index_of_impl ts T = of_nat k"
    proof (rule Cons.IH)
      show "k < length ts" using Cons.prems(1) Suc by simp
      show "ts ! k = T" using Cons.prems(2) Suc by simp
      fix j assume "j < k"
      then show "ts ! j \<noteq> T" using Cons.prems(3) [of "Suc j"] Suc by simp
    qed
    with ne Suc show ?thesis by simp
  qed
qed

text \<open>
  Where \<open>T\<close> does not occur, every element adds 1 to the maximum of \<open>size_t\<close>: the sum
  wraps, and the result is the size of the sequence minus 1. Only for the empty
  sequence is that the maximum.
\<close>

lemma index_of_impl_absent:
  "T \<notin> set ts \<Longrightarrow> index_of_impl ts T = of_nat (length ts) - 1"
  by (induction ts) (auto simp: size_t_max_def)

lemma index_of_empty: "index_of (Tmpl s []) T = Inr (IntegralConstant size_t_max)"
  by simp

text \<open>
  C1 (the header departs from the claim). For a type that does not occur, \<open>index_of\<close>
  is not always the maximum of \<open>size_t\<close>: \<open>index_of<type_list<int>, char>\<close> is
  \<open>std::integral_constant<std::size_t, 0>\<close>, the index of a hit at the front, and so is
  \<open>index_of<erase_type<type_list<int, char>, char>, char>\<close>.
\<close>

theorem index_of_absent_not_sentinel:
  "index_of (type_list [t_int]) t_char = Inr (IntegralConstant 0)
   \<and> index_of (type_list [t_int]) t_char \<noteq> Inr (IntegralConstant size_t_max)
   \<and> and_then (erase_type (type_list [t_int, t_char]) t_char) (\<lambda>S. index_of S t_char)
       = Inr (IntegralConstant 0)"
  by (simp add: type_list_def size_t_max_def)

subsection \<open>cat\<close>

lemma cat_nonempty_first:
  "ts1 \<noteq> [] \<Longrightarrow> cat (Tmpl s1 ts1) (Tmpl s2 ts2) = Inr (Tmpl s1 (ts1 @ ts2))"
proof (induction ts2 arbitrary: ts1)
  case Nil
  then show ?case by (cases ts1) simp_all
next
  case (Cons a ts2)
  from Cons.prems obtain x xs where ts1: "ts1 = x # xs"
    by (cases ts1) simp_all
  have "cat (Tmpl s1 (ts1 @ [a])) (Tmpl s2 ts2) = Inr (Tmpl s1 ((ts1 @ [a]) @ ts2))"
    by (rule Cons.IH) simp
  then show ?case by (simp add: ts1)
qed

lemma size_cat:
  "ts1 \<noteq> [] \<Longrightarrow>
   and_then (and_then (cat (Tmpl s1 ts1) (Tmpl s2 ts2)) size_impl) (value_of cv)
     = Inr (of_nat (length ts1) + of_nat (length ts2))"
  by (simp add: cat_nonempty_first)

text \<open>
  C6 (the header departs from the claim). \<open>cat\<close> of two empty sequences does not
  compile: \<open>cat<type_list<>, detail::type_list2<>>\<close> and \<open>cat<type_list<>, type_list<>>\<close>
  match two partial specialisations of \<open>cat_impl\<close>, neither more specialised than the
  other.
\<close>

theorem cat_two_empty_ambiguous:
  "cat (type_list []) (type_list2 []) = Inl AmbiguousSpecialization
   \<and> cat (type_list []) (type_list []) = Inl AmbiguousSpecialization"
  by (simp add: type_list_def type_list2_def)

subsection \<open>erase_type\<close>

lemma erase_type_impl_filter:
  "erase_type_impl s ts C = Inr (Tmpl s (filter (\<lambda>T. T \<noteq> C) ts))"
  by (induction ts) (simp_all add: cat_nonempty_first)

text \<open>
  C7. For every type sequence and every type \<open>C\<close>, \<open>erase_type\<close> compiles and yields the
  sequence of the same shape without any occurrence of \<open>C\<close>, the other elements in
  their original order (it is the sequence filtered by \<open>T \<noteq> C\<close>); and
  \<open>erase_type<type_list<double, int, char, double>, double>\<close> is \<open>type_list<int, char>\<close>.
\<close>

theorem erase_type_removes_all:
  "erase_type (Tmpl s ts) C = Inr (Tmpl s (filter (\<lambda>T. T \<noteq> C) ts))
   \<and> erase_type (type_list [t_double, t_int, t_char, t_double]) t_double
       = Inr (type_list [t_int, t_char])"
  by (simp add: erase_type_impl_filter type_list_def)

subsection \<open>is_same\<close>

lemma is_same_fold:
  "length Ts = length Args \<Longrightarrow>
   foldr (\<lambda>(T, A) b. decay T = decay A \<and> b) (zip Ts Args) True
     = list_all2 (\<lambda>T A. decay T = decay A) Ts Args"
  by (induction Ts Args rule: list_induct2) simp_all

lemma is_same_arity_mismatch:
  "length Ts \<noteq> length Args \<Longrightarrow> is_same (Tmpl s Ts) Args = Inl PackLengthMismatch"
  by simp

text \<open>
  C3 (the header departs from the claim). With an argument list whose arity differs
  from the size of the sequence, \<open>is_same\<close> does not yield \<open>false\<close>: reading
  \<open>is_same<type_list<double, int>, double>::value\<close> instantiates a fold over the packs
  \<open>Ts\<close> (two types) and \<open>Args\<close> (one type) and does not compile.
\<close>

theorem is_same_arity_mismatch_fails:
  "is_same (type_list [t_double, t_int]) [t_double] = Inl PackLengthMismatch"
  by (simp add: type_list_def)

text \<open>
  C10. For a sequence and an argument list of the same arity, \<open>is_same\<close> compiles and is
  true exactly when each element and its argument have the same \<open>std::decay\<close>. The
  decay of an array type is the pointer to its element type, that of a function type
  is the pointer to the function, that of a const-qualified type is the type without
  its top-level qualifiers, and that of a reference is the decay of the type referred
  to. So \<open>is_same<type_list<int*>, int[3]>\<close> is true, and so is
  \<open>is_same<type_list<int(*)(char)>, int(char)>\<close>.
\<close>

theorem is_same_decays:
  "(length Ts = length Args \<longrightarrow>
      is_same (Tmpl s Ts) Args = Inr (list_all2 (\<lambda>T A. decay T = decay A) Ts Args))
   \<and> decay (Arr T n) = Ptr T
   \<and> decay (Fn R As) = Ptr (Fn R As)
   \<and> decay (Const T) = remove_cv T
   \<and> decay (LRef (Const (Named x))) = Named x
   \<and> decay (RRef (Named x)) = Named x
   \<and> is_same (type_list [Ptr t_int]) [Arr t_int 3] = Inr True
   \<and> is_same (type_list [Ptr (Fn t_int [t_char])]) [Fn t_int [t_char]] = Inr True"
proof -
  have "length Ts = length Args \<longrightarrow>
      is_same (Tmpl s Ts) Args = Inr (list_all2 (\<lambda>T A. decay T = decay A) Ts Args)"
    by (simp add: is_same_fold)
  moreover have "decay (Arr T n) = Ptr T" "decay (Fn R As) = Ptr (Fn R As)"
    "decay (Const T) = remove_cv T" "decay (LRef (Const (Named x))) = Named x"
    "decay (RRef (Named x)) = Named x"
    by (simp_all add: decay_def)
  moreover have "is_same (type_list [Ptr t_int]) [Arr t_int 3] = Inr True"
    "is_same (type_list [Ptr (Fn t_int [t_char])]) [Fn t_int [t_char]] = Inr True"
    by (simp_all add: decay_def type_list_def)
  ultimately show ?thesis by blast
qed

theorem is_same_decays_witness:
  "is_same (type_list [t_double, Ptr (Const t_char), t_int])
           [Const t_double, Arr (Const t_char) 4, LRef t_int] = Inr True
   \<and> is_same (type_list [t_double, t_int]) [t_int, t_double] = Inr False"
  using is_same_decays [of "[t_double, Ptr (Const t_char), t_int]"
                           "[Const t_double, Arr (Const t_char) 4, LRef t_int]" "''type_list''"]
    is_same_decays [of "[t_double, t_int]" "[t_int, t_double]" "''type_list''"]
  by (simp add: type_list_def decay_def)

subsection \<open>has_all_types and filter_have_all_types\<close>

lemma has_type_mem: "has_type (Tmpl s ts) T = Inr (T \<in> set ts)"
  by (auto simp: list_ex_iff)

text \<open>\<open>has_all_types\<close> holds exactly when every element of the second sequence occurs in the first.\<close>

lemma has_all_types_subset:
  "has_all_types (Tmpl s1 ts1) (Tmpl s2 ts2) = Inr (set ts2 \<subseteq> set ts1)"
proof -
  have "expand (has_type (Tmpl s1 ts1)) ts2 = Inr (map (\<lambda>T. T \<in> set ts1) ts2)"
    by (rule expand_total) (rule has_type_mem)
  then show ?thesis by (auto simp: list_all_iff)
qed

lemma filter_have_all_types_impl_filter:
  "list_all is_type_sequence ss \<Longrightarrow>
   filter_have_all_types_impl s1 ss (Tmpl s2 cs)
     = Inr (Tmpl s1 (filter (\<lambda>si. has_all_types si (Tmpl s2 cs) = Inr True) ss))"
proof (induction ss)
  case Nil
  then show ?case by simp
next
  case (Cons a ss)
  from Cons.prems obtain s ts where a: "a = Tmpl s ts"
    by (cases a) simp_all
  from Cons show ?case
    by (simp add: a cat_nonempty_first has_all_types_subset del: has_all_types.simps)
qed

text \<open>
  C8. For every sequence \<open>S\<close> whose elements are type sequences and every criterion
  sequence \<open>Cs\<close>, \<open>filter_have_all_types\<close> compiles and yields the sequence of \<open>S\<close>'s
  shape that holds exactly the elements \<open>si\<close> with \<open>has_all_types<si, Cs>\<close>, in their
  original order (it is \<open>S\<close> filtered by that predicate); when no element satisfies it,
  the result is the empty sequence.
\<close>

theorem filter_have_all_types_keeps:
  assumes "list_all is_type_sequence ss"
  shows "filter_have_all_types (Tmpl s1 ss) (Tmpl s2 cs)
           = Inr (Tmpl s1 (filter (\<lambda>si. has_all_types si (Tmpl s2 cs) = Inr True) ss))
         \<and> ((\<forall>si \<in> set ss. has_all_types si (Tmpl s2 cs) \<noteq> Inr True)
              \<longrightarrow> filter_have_all_types (Tmpl s1 ss) (Tmpl s2 cs) = Inr (Tmpl s1 []))"
proof -
  have eq: "filter_have_all_types (Tmpl s1 ss) (Tmpl s2 cs)
           = Inr (Tmpl s1 (filter (\<lambda>si. has_all_types si (Tmpl s2 cs) = Inr True) ss))"
    using assms by (simp add: filter_have_all_types_impl_filter)
  have "filter (\<lambda>si. has_all_types si (Tmpl s2 cs) = Inr True) ss = []"
    if "\<forall>si \<in> set ss. has_all_types si (Tmpl s2 cs) \<noteq> Inr True"
    using that by (simp add: filter_empty_conv)
  with eq show ?thesis by simp
qed

theorem filter_have_all_types_keeps_witness:
  "filter_have_all_types
     (type_list [type_list [t_char, t_float, t_int], type_list [t_char, t_bool, t_double],
                 type_list [t_float, t_double, t_char]])
     (type_list [t_char, t_float])
   = Inr (type_list [type_list [t_char, t_float, t_int], type_list [t_float, t_double, t_char]])
   \<and> filter_have_all_types
     (type_list [type_list [t_char, t_int], type_list2 [t_bool]])
     (type_list [t_char, t_float])
   = Inr (type_list [])"
  using filter_have_all_types_keeps
          [of "[type_list [t_char, t_float, t_int], type_list [t_char, t_bool, t_double],
                type_list [t_float, t_double, t_char]]"
              "''type_list''" "''type_list''" "[t_char, t_float]"]
    filter_have_all_types_keeps
          [of "[type_list [t_char, t_int], type_list2 [t_bool]]"
              "''type_list''" "''type_list''" "[t_char, t_float]"]
  by (simp add: type_list_def type_list2_def)

subsection \<open>map\<close>

text \<open>
  Every instantiation of \<open>map\<close> names \<open>Nth_type<Map, ...>\<close> as a template argument of
  \<open>std::conditional\<close>, so none compiles.
\<close>

lemma Nth_type_no_result: "Nth_type Seq N \<noteq> Inr x"
  by (simp add: Nth_type_def)

lemma map_impl_no_result: "map_impl cv Map Key Default \<noteq> Inr x"
  by (simp add: map_impl_def and_then_Inr Nth_type_no_result)

text \<open>
  C4 (the header departs from the claim). For a map that holds the key, \<open>map\<close> does not
  yield the value of the first pair with that key, because it does not compile.
  \<open>map<detail::test_map, int, float>\<close>, which the header asserts to be \<open>char\<close>, already
  fails in \<open>transform<Map, front>\<close>: \<open>front\<close> of the first pair is
  \<open>Nth_type<type_list<int, char>, 0>\<close>, a member of the incomplete \<open>Nth_type_impl\<close>. So
  does the lookup of \<open>float\<close> in a map that has the key \<open>float\<close> in two pairs.
\<close>

theorem map_present_key_fails:
  "map_impl cv test_map t_int t_float = Inl IncompleteType
   \<and> map_impl cv (type_list [type_list [t_int, t_char], type_list2 [t_float, t_double],
                           type_list [t_float, t_bool]]) t_float t_int = Inl IncompleteType"
  by (simp add: map_impl_def test_map_def type_list_def type_list2_def front_def Nth_type_def)

text \<open>
  C2 (the header departs from the claim). On the empty map the lookup does not yield
  the default: \<open>map<type_list<>, int, float>\<close> does not compile. The keys are
  \<open>type_list<>\<close> and the key is absent, but the alternative for a present key,
  \<open>back<Nth_type<type_list<>, index_of<type_list<>, int>::value>>\<close>, is a template
  argument of \<open>std::conditional\<close> and is instantiated as well: it names a member of the
  incomplete \<open>Nth_type_impl\<close> (whose specialisation, were it to match, would be asked
  for element \<open>2^64 - 1\<close> of an empty tuple).
\<close>

theorem map_empty_fails:
  "map_impl cv (type_list []) t_int t_float = Inl IncompleteType"
  by (simp add: map_impl_def type_list_def size_t_max_def Nth_type_def)

subsection \<open>type_to_value and value_to_type\<close>

text \<open>
  C5, as the header has it. For every value sequence \<open>V\<close>, of any shape and any length,
  \<open>type_to_value<value_to_type<V>>\<close> compiles and is the \<open>value_list\<close> of \<open>V\<close>'s integers in
  \<open>V\<close>'s order; it is \<open>V\<close> itself when \<open>V\<close> is a \<open>value_list\<close>.
\<close>

theorem value_round_trip:
  "and_then (value_to_type (VTmpl s is)) (type_to_value cv) = Inr (value_list is)
   \<and> and_then (value_to_type (value_list is)) (type_to_value cv) = Inr (value_list is)"
proof -
  have "expand (value_of cv) (map IntegralConstant is) = Inr is"
    by (induction "is") simp_all
  then show ?thesis by (simp add: type_list_def value_list_def)
qed

text \<open>
  C5, as the claim has it, fails for a value sequence of another shape: with
  \<open>template <size_t...> struct index_list\<close>, the round trip of \<open>index_list<1, 2>\<close> is
  \<open>value_list<1, 2>\<close>, a different type (here in a program where no other class has a
  member \<open>value\<close>; the round trip reads that of integral constants only).
\<close>

theorem value_round_trip_changes_shape:
  "and_then (value_to_type (VTmpl ''index_list'' [1, 2])) (type_to_value (\<lambda>T. None))
     \<noteq> Inr (VTmpl ''index_list'' [1, 2])"
  by (simp add: type_list_def value_list_def)

subsection \<open>static_for\<close>

lemma template_argument_representable:
  "representable T v \<Longrightarrow> template_argument T v = Inr v"
  by (cases T) simp_all

lemma representable_between:
  "representable T a \<Longrightarrow> representable T b \<Longrightarrow> a \<le> v \<Longrightarrow> v \<le> b \<Longrightarrow> representable T v"
  by (cases T) auto

text \<open>For an unsigned index type the difference of \<open>Begin \<le> End\<close> is always a value of the type.\<close>

lemma representable_diff_unsigned:
  "representable (Unsigned w) Begin \<Longrightarrow> representable (Unsigned w) End \<Longrightarrow> Begin \<le> End
   \<Longrightarrow> representable (Unsigned w) (End - Begin)"
  by auto

lemma upto_shift: "map (\<lambda>I. Begin + I) (map int [0..<n]) = [Begin..Begin + int n - 1]"
proof (induction n)
  case 0
  then show ?case by simp
next
  case (Suc n)
  have "[Begin..Begin + int (Suc n) - 1] = [Begin..Begin + int n - 1] @ [Begin + int n]"
    using upto_rec2 [of Begin "Begin + int n"] by simp
  with Suc show ?case by simp
qed

lemma static_for_impl_indices:
  assumes "representable T Begin" and "representable T End" and "Begin \<le> End"
  shows "static_for_impl T Begin f (map int [0..<nat (End - Begin)]) st
           = Inr (fold f [Begin..End - 1] st)"
proof -
  let ?Is = "map int [0..<nat (End - Begin)]"
  have "expand (\<lambda>I. template_argument T (Begin + I)) ?Is = Inr (map (\<lambda>I. Begin + I) ?Is)"
  proof (rule expand_total)
    fix I assume "I \<in> set ?Is"
    then have "Begin \<le> Begin + I" "Begin + I \<le> End" by auto
    then have "representable T (Begin + I)"
      using assms(1,2) by (rule representable_between [rotated 2])
    then show "template_argument T (Begin + I) = Inr (Begin + I)"
      by (rule template_argument_representable)
  qed
  moreover have "map (\<lambda>I. Begin + I) ?Is = [Begin..End - 1]"
    using assms(3) by (simp only: upto_shift) simp
  ultimately show ?thesis by (simp add: static_for_impl_def)
qed

lemma static_for_fold:
  assumes "representable T Begin" and "representable T End" and "Begin \<le> End"
    and "representable T (End - Begin)"
  shows "static_for T Begin End f st = Inr (fold f [Begin..End - 1] st)"
  using assms
  by (simp add: static_for_def make_integer_sequence_def template_argument_representable
      static_for_impl_indices)

lemma fold_log: "fold (\<lambda>i log. log @ [i]) xs acc = acc @ xs"
  by (induction xs arbitrary: acc) simp_all

text \<open>
  C9, as the header has it. Let \<open>T\<close> be the index type, \<open>Begin \<le> End\<close> two values of
  \<open>T\<close>, and let \<open>End - Begin\<close> be a value of \<open>T\<close> as well (for an unsigned \<open>T\<close> it always
  is). Then for every action \<open>f\<close>, \<open>static_for\<close> compiles and runs \<open>f\<close> on
  \<open>Begin, Begin + 1, ..., End - 1\<close> in this order, each call on the state the previous
  one left. With the action that appends its index to a log, the log is that list:
  it holds every integer of \<open>[Begin, End)\<close> and no other, each once, in ascending
  order.
\<close>

theorem static_for_range:
  assumes "representable T Begin" and "representable T End" and "Begin \<le> End"
    and "representable T (End - Begin)"
  shows "static_for T Begin End f st = Inr (fold f [Begin..End - 1] st)
         \<and> static_for T Begin End (\<lambda>i log. log @ [i]) [] = Inr [Begin..End - 1]
         \<and> set [Begin..End - 1] = {i. Begin \<le> i \<and> i < End}
         \<and> sorted [Begin..End - 1] \<and> distinct [Begin..End - 1]"
  using assms by (auto simp: static_for_fold fold_log)

theorem static_for_range_witness:
  "static_for (Signed 32) 2 5 (\<lambda>i log. log @ [i]) [] = Inr [2, 3, 4]
   \<and> static_for (Unsigned 64) 3 3 (\<lambda>i log. log @ [i]) [] = Inr []
   \<and> static_for (Signed 8) (-1) 2 (\<lambda>i n. 10 * n + i) (7 :: int) = Inr 6901"
  using static_for_range [of "Signed 32" 2 5 "\<lambda>i log. log @ [i]" "[]"]
    static_for_range [of "Unsigned 64" 3 3 "\<lambda>i log. log @ [i]" "[]"]
    static_for_range [of "Signed 8" "-1" 2 "\<lambda>i n. 10 * n + i" "7 :: int"]
  by (simp add: upto.simps)

text \<open>
  C9, as the claim has it, fails where \<open>End - Begin\<close> is not a value of the index type:
  \<open>-1 \<le> 127\<close> are values of \<open>signed char\<close>, but \<open>127 - (-1) = 128\<close> is not, and
  \<open>static_for<signed char, -1, 127>(f)\<close> does not compile, so \<open>f\<close> is never called.
\<close>

theorem static_for_signed_char_fails:
  "representable (Signed 8) (- 1) \<and> representable (Signed 8) 127 \<and> (- 1 :: int) \<le> 127
   \<and> static_for (Signed 8) (- 1) 127 (\<lambda>i log. log @ [i]) [] = Inl NotRepresentable"
  by (simp add: static_for_def)

end
